theory Spec2Isabelle
  imports Complex_Main "HOL-Library.Product_Lexorder" "HOL-Library.Multiset"
begin

section \<open>McPUFF: perturbation, scheduling and yield reduction\<close>

text \<open>
  A shallow embedding of the parts of \<^verbatim>\<open>McPUFF_program.py\<close> and
  \<^verbatim>\<open>McPUFF_Perturbed_Data.py\<close> that perturb GEF parameters, schedule the perturbed
  simulations, reduce the raw GEF event list and persist the result.

  Conventions of the embedding:
  \<^item> numpy and Python floating-point numbers are the real numbers they denote; the
    rounding error of binary floating-point arithmetic and of the casts between
    \<^verbatim>\<open>float64\<close> and \<^verbatim>\<open>float32\<close> is not part of the model. The decimal
    rounding \<^verbatim>\<open>round(x, 9)\<close> is an operation of the program and is modelled;
  \<^item> an exception or \<^verbatim>\<open>sys.exit\<close> is a value \<open>Inl e\<close> of a sum type;
  \<^item> random draws are arguments: the functions take the numbers the generator returned;
  \<^item> the external programs (GEF, TALYS) and the parsers of their files are one argument
    \<open>simulate\<close> that maps a trial to its outcome or to a fatal error.
\<close>

datatype py_error =
    ValueError
  | UnboundLocalError
  | KeyError
  | IndexError
  | UnpicklingError
  | SystemExit

subsection \<open>The raw event table\<close>

text \<open>
  One row of the array \<^verbatim>\<open>FY\<close> that \<^verbatim>\<open>Reaction.FY_results\<close> builds from the
  \<^verbatim>\<open>.lmd\<close> file. Columns 0 to 6 exist for both GEF options; columns 7 to 10 exist
  only with the option \<^verbatim>\<open>lmd+\<close> (11 columns) and are never read otherwise.
\<close>

record event =
  Z1 :: real        \<comment> \<open>column 0\<close>
  A1sci :: real     \<comment> \<open>column 1\<close>
  Z2 :: real        \<comment> \<open>column 2\<close>
  A2sci :: real     \<comment> \<open>column 3\<close>
  TKEpre :: real    \<comment> \<open>column 4\<close>
  Eexc1 :: real     \<comment> \<open>column 5\<close>
  Eexc2 :: real     \<comment> \<open>column 6\<close>
  En_light :: real  \<comment> \<open>column 7 (\<^verbatim>\<open>lmd+\<close>)\<close>
  En_heavy :: real  \<comment> \<open>column 8 (\<^verbatim>\<open>lmd+\<close>)\<close>
  Eg_light :: real  \<comment> \<open>column 9 (\<^verbatim>\<open>lmd+\<close>)\<close>
  Eg_heavy :: real  \<comment> \<open>column 10 (\<^verbatim>\<open>lmd+\<close>)\<close>

type_synonym split_key = "real \<times> real \<times> real \<times> real"

text \<open>The slice \<^verbatim>\<open>FY[:,0:4]\<close> of one row.\<close>

definition key_of :: "event \<Rightarrow> split_key" where
  "key_of e = (Z1 e, A1sci e, Z2 e, A2sci e)"

subsection \<open>\<^verbatim>\<open>Reaction.GEF_FY_for_TALYS\<close>\<close>

text \<open>
  \<^verbatim>\<open>np.where(FY[:,1]+FY[:,3] != A_compound)\<close> followed by \<^verbatim>\<open>np.delete\<close>: the rows
  whose mass numbers do not add up to the compound mass number are dropped, the others
  keep their order.
\<close>

definition is_multichance :: "int \<Rightarrow> event \<Rightarrow> bool" where
  "is_multichance A_compound e \<longleftrightarrow> A1sci e + A2sci e \<noteq> of_int A_compound"

definition delete_multichance :: "int \<Rightarrow> event list \<Rightarrow> event list" where
  "delete_multichance A_compound FY = filter (\<lambda>e. \<not> is_multichance A_compound e) FY"

text \<open>
  The tuple assignment
  \<^verbatim>\<open>FY[r,0],FY[r,2],FY[r,1],FY[r,3] = FY[r,2],FY[r,0],FY[r,3],FY[r,1]\<close>
  applied to the rows with \<^verbatim>\<open>FY[:,1] > FY[:,3]\<close>. No other column is assigned.
\<close>

definition swap_fragments :: "event \<Rightarrow> event" where
  "swap_fragments e = e\<lparr>Z1 := Z2 e, Z2 := Z1 e, A1sci := A2sci e, A2sci := A1sci e\<rparr>"

definition swap_if_Al_larger :: "event \<Rightarrow> event" where
  "swap_if_Al_larger e = (if A1sci e > A2sci e then swap_fragments e else e)"

text \<open>
  \<^verbatim>\<open>np.unique(FY[:,0:4], return_index=True, return_counts=True, axis=0)\<close>: the distinct
  rows in lexicographic order, and how often each occurs. The index of the first
  occurrence is only used to read the four key columns back, which are the unique row
  itself.
\<close>

definition unique_rows :: "split_key list \<Rightarrow> split_key list" where
  "unique_rows ks = sort (remdups ks)"

definition unique_counts :: "split_key list \<Rightarrow> nat list" where
  "unique_counts ks = map (count_list ks) (unique_rows ks)"

text \<open>The unique rows with \<^verbatim>\<open>unique_counts > 1\<close>, and \<^verbatim>\<open>np.count_nonzero(unique_counts == 1)\<close>.\<close>

definition rows_more_than_once :: "split_key list \<Rightarrow> split_key list" where
  "rows_more_than_once ks = filter (\<lambda>k. count_list ks k > 1) (unique_rows ks)"

definition count_ignored :: "split_key list \<Rightarrow> nat" where
  "count_ignored ks = length (filter (\<lambda>c. c = 1) (unique_counts ks))"

text \<open>\<^verbatim>\<open>np.mean\<close> and \<^verbatim>\<open>np.std(..., ddof=1)\<close>.\<close>

definition np_mean :: "real list \<Rightarrow> real" where
  "np_mean xs = sum_list xs / real (length xs)"

definition np_std_ddof1 :: "real list \<Rightarrow> real" where
  "np_std_ddof1 xs =
     sqrt (sum_list (map (\<lambda>x. (x - np_mean xs)\<^sup>2) xs) / real (length xs - 1))"

text \<open>
  The rows of \<^verbatim>\<open>FY\<close> that match a unique row:
  \<^verbatim>\<open>ind = (row == FY[:,0:4]).all(axis=1).nonzero()\<close>.
\<close>

definition rows_matching :: "split_key \<Rightarrow> event list \<Rightarrow> event list" where
  "rows_matching k FY = filter (\<lambda>e. key_of e = k) FY"

text \<open>
  One populated row of \<^verbatim>\<open>FY_TALYS\<close>. The table has 11 columns when the input has 7
  and 19 columns otherwise; columns 11 to 18 are written only when the input has
  exactly 11 columns.
\<close>

definition table_columns :: "nat \<Rightarrow> nat" where
  "table_columns columns = (if columns = 7 then 11 else 19)"

definition summary_row :: "nat \<Rightarrow> event list \<Rightarrow> nat \<Rightarrow> split_key \<Rightarrow> real list" where
  "summary_row columns FY ignored_events k =
     (let ind = rows_matching k FY in
      [fst k, fst (snd k), fst (snd (snd k)), snd (snd (snd k)),
       real (count_list (map key_of FY) k) / (real (length FY) - real ignored_events),
       np_mean (map TKEpre ind),
       np_mean (map (\<lambda>e. Eexc1 e + Eexc2 e) ind),
       np_mean (map Eexc1 ind),
       np_std_ddof1 (map Eexc1 ind),
       np_mean (map Eexc2 ind),
       np_std_ddof1 (map Eexc2 ind)]
      @ (if columns = 11 then
           [np_mean (map En_light ind), np_std_ddof1 (map En_light ind),
            np_mean (map En_heavy ind), np_std_ddof1 (map En_heavy ind),
            np_mean (map Eg_light ind), np_std_ddof1 (map Eg_light ind),
            np_mean (map Eg_heavy ind), np_std_ddof1 (map Eg_heavy ind)]
         else replicate (table_columns columns - 11) 0))"

text \<open>
  The array \<^verbatim>\<open>FY\<close> after the two in-place steps: multi-chance rows deleted, then
  fragments swapped where the first mass number is the larger one.
\<close>

definition swapped_table :: "int \<Rightarrow> event list \<Rightarrow> event list" where
  "swapped_table A_compound FY0 = map swap_if_Al_larger (delete_multichance A_compound FY0)"

text \<open>
  The whole function. \<open>columns\<close> is \<^verbatim>\<open>np.shape(FY)[1]\<close>. The argument
  \<open>num_of_events\<close> is only deleted by the source. Two exceptions are part of the
  function:
  \<^item> the slice assignment \<^verbatim>\<open>FY_TALYS[slice(len(index_to_pick)),0] = FY[index_to_pick,0]\<close>
    raises \<^verbatim>\<open>ValueError\<close> when more than 300 rows are to be stored;
  \<^item> the final \<^verbatim>\<open>del ...,k,row,ind,columns\<close> raises \<^verbatim>\<open>UnboundLocalError\<close> when the
    loop over the retained rows never ran, that is when no row occurs more than once.
\<close>

definition GEF_FY_for_TALYS ::
  "nat \<Rightarrow> event list \<Rightarrow> int \<Rightarrow> nat \<Rightarrow> py_error + (real list list \<times> nat)" where
  "GEF_FY_for_TALYS columns FY0 A_compound num_of_events =
     (let FY = swapped_table A_compound FY0;
          ks = map key_of FY;
          index_to_pick = rows_more_than_once ks;
          ignored_events = count_ignored ks
      in if length index_to_pick > 300 then Inl ValueError
         else if index_to_pick = [] then Inl UnboundLocalError
         else Inr (map (summary_row columns FY ignored_events) index_to_pick
                     @ replicate (300 - length index_to_pick)
                         (replicate (table_columns columns) 0),
                   ignored_events))"

subsection \<open>Perturbed parameter values\<close>

text \<open>
  What \<^verbatim>\<open>create_perturbed_parameter_value\<close> returns: a number, \<^verbatim>\<open>nan\<close> (the
  numpy quotient \<^verbatim>\<open>0/0\<close>) or \<^verbatim>\<open>None\<close> (the function falls off its last branch).
\<close>

datatype pyval = Float real | NaN | PyNone

text \<open>
  \<^verbatim>\<open>round(x, 9)\<close> on a numpy scalar: multiply by \<open>10\<^sup>9\<close>, round to the nearest
  integer with ties going to the even one (\<^verbatim>\<open>rint\<close>), divide by \<open>10\<^sup>9\<close>.
\<close>

definition rint :: "real \<Rightarrow> int" where
  "rint x =
     (let f = \<lfloor>x\<rfloor> in
      if x - of_int f < 1 / 2 then f
      else if 1 / 2 < x - of_int f then f + 1
      else if even f then f else f + 1)"

definition py_round9 :: "real \<Rightarrow> real" where
  "py_round9 x = of_int (rint (x * 10 ^ 9)) / 10 ^ 9"

definition special_case_parameters :: "string list" where
  "special_case_parameters =
     [''_Delta_S0'', ''P_att_pol2'', ''P_att_pol3'', ''kappa'', ''Epot_shift'',
      ''SIGDEFO_slope'', ''ZPOL1'', ''P_n_x'', ''T_orbital'']"

text \<open>
  \<^verbatim>\<open>Modified_Parameter.create_perturbed_parameter_value\<close>. The two extra arguments are
  the random numbers the special-case branches draw: \<open>u\<close> is the value of
  \<^verbatim>\<open>np.random.rand(1)\<close>, a number of the interval from 0 to 1, and \<open>g\<close> is the
  standard normal variate behind \<^verbatim>\<open>normal(loc=0.0, scale=0.03, size=1)\<close>, which
  returns \<open>0 + 0.03 * g\<close>. For an ordinary parameter under \<^verbatim>\<open>uniform\<close> the quotient
  \<^verbatim>\<open>unpert_param_val/abs(unpert_param_val)\<close> is \<^verbatim>\<open>nan\<close> when the value is zero.
\<close>

definition create_perturbed_parameter_value ::
  "real \<Rightarrow> real \<Rightarrow> string \<Rightarrow> real \<Rightarrow> real \<Rightarrow> string \<Rightarrow> pyval" where
  "create_perturbed_parameter_value u g param_name rand_num unpert_param_val distribution_flag =
     (if distribution_flag = ''uniform'' then
        (if param_name \<in> set special_case_parameters then
           Float (py_round9 (- (1 / 2) + u * 2 * (1 / 2)))
         else if unpert_param_val = 0 then NaN
         else Float (py_round9 ((unpert_param_val / \<bar>unpert_param_val\<bar>) * rand_num)))
      else if distribution_flag = ''normal'' then
        (if param_name \<in> set special_case_parameters then
           Float (py_round9 (0 + (3 / 100) * g))
         else Float (py_round9 rand_num))
      else if distribution_flag = ''max-min'' then
        (if param_name \<in> set special_case_parameters then
           Float (py_round9 (rand_num - 1))
         else Float (py_round9 (unpert_param_val * rand_num)))
      else PyNone)"

subsection \<open>\<^verbatim>\<open>Gaussian_GEF_Param.gaussian_st_dev_for_parameter\<close>\<close>

definition gaussian_parameter_names :: "string list" where
  "gaussian_parameter_names =
    [''_Delta_S0'', ''EOscale'', ''_P_DZ_Mean_S1'', ''_P_corr_S1'', ''_P_DZ_Mean_S2'',
     ''_P_DZ_Mean_S3'', ''_P_DZ_Mean_S4'', ''ZC_Mode_4L'', ''_P_Z_Curv_S1'',
     ''P_Z_Curvmod_S1'', ''_P_Z_Curv_S2'', ''_S2leftmod'', ''P_Z_Curvmod_S2'',
     ''_P_A_Width_S2'', ''_P_Z_Curv_S3'', ''P_Z_Curvmod_S3'', ''P_Z_Curv_SL4'',
     ''P_Z_Sigma_SL4'', ''_P_Z_Curv_S4'', ''P_Z_Curvmod_S4'', ''_P_Shell_S1'',
     ''_P_Shell_S2'', ''_P_Shell_S3'', ''P_Shell_SL4'', ''_P_Shell_S4'', ''P_S4_mod'',
     ''_PZ_S3_olap_pos'', ''_PZ_S3_olap_curv'', ''ETHRESHSUPPS1'', ''ESIGSUPPS1'',
     ''Level_S11'', ''Shell_fading'', ''_T_low_S1'', ''_T_low_S2'', ''_T_low_S3'',
     ''_T_low_S4'', ''_T_low_SL'', ''T_low_S11'', ''_P_att_pol'', ''P_att_pol2'',
     ''P_att_pol3'', ''_P_att_rel'', ''_dE_Defo_S1'', ''_dE_Defo_S2'', ''_dE_Defo_S3'',
     ''_dE_Defo_S4'', ''_betaL0'', ''_betaL1'', ''_betaH0'', ''_betaH1'', ''_dbeta_S3'',
     ''kappa'', ''TCOLLFRAC'', ''_ECOLLFRAC'', ''TFCOLL'', ''TCOLLMIN'',
     ''ESHIFTSASCI_intr'', ''ESHIFTSASCI_coll'', ''_EDISSFRAC'', ''Epot_shift'',
     ''SIGDEFO'', ''SIGDEFO_0'', ''SIGDEFO_slope'', ''SIGENECK'', ''EexcSIGrel'',
     ''DNECK'', ''FTRUNC50'', ''ZTRUNC50'', ''FTRUNC28'', ''ZTRUNC28'', ''ZMAX_S2'',
     ''NTRANSFEREO'', ''NTRANSFERE'', ''Csort'', ''PZ_EO_symm'', ''PN_EO_Symm'',
     ''R_EO_THRESH'', ''R_EO_SIGMA'', ''R_EO_Max'', ''_POLARadd'', ''POLARfac'',
     ''T_POL_RED'', ''_HOMPOL'', ''ZPOL1'', ''P_n_x'', ''Tscale'', ''Econd'', ''Etrans'',
     ''T_orbital'', ''_Jscaling'', ''Spin_odd'', ''Esort_extend'', ''Esort_slope'',
     ''Esort_slope_S0'']"

text \<open>
  Every entry of the dictionary \<^verbatim>\<open>st_dev_param\<close> is
  \<^verbatim>\<open>parameter_value*perturbation_in_percent\<close> with \<^verbatim>\<open>perturbation_in_percent = 0.03\<close>;
  a name that is not a key raises \<^verbatim>\<open>KeyError\<close>.
\<close>

definition gaussian_st_dev_for_parameter :: "string \<Rightarrow> real \<Rightarrow> py_error + real" where
  "gaussian_st_dev_for_parameter parameter_name param_val =
     (if parameter_name \<in> set gaussian_parameter_names then Inr (param_val * (3 / 100))
      else Inl KeyError)"

subsection \<open>The result objects\<close>

text \<open>
  The type variable \<open>'o\<close> is the outcome of one simulation: the yield table, the
  number of ignored events and the two dictionaries of GEF and TALYS results, which the
  source always sets together.
\<close>

record 'o Random_Parameter_value =
  rpv_param_name :: string
  rpv_unpert_param_val :: real
  rpv_random_value :: real
  rpv_enumeration_rand_num :: nat
  rpv_pert_param_val :: pyval
  rpv_results :: 'o

record 'o Modified_Parameter =
  mp_param_name :: string
  mp_unpert_param_val :: real
  list_of_Random_Parameter_Value_objects :: "'o Random_Parameter_value list"
  list_of_rand_num :: "real list"

record TMC_Mod_Param_object =
  tmp_param_name :: string
  tmp_unpert_param_val :: real
  tmp_pert_param_val :: pyval
  tmp_random_value :: real

record 'o TMC_Object =
  tmc_dictionary_unpert_param_name_val :: "(string \<times> real) list"
  tmc_enumeration_rand_val :: nat
  list_of_TMC_Mod_Param_objects :: "TMC_Mod_Param_object list"
  tmc_results :: 'o

record reaction_info =
  info_MC_runs :: nat
  info_Z_target :: int
  info_A_compound :: int
  info_E_reaction :: real
  info_num_of_rand :: nat

text \<open>
  \<open>reac_unperturbed\<close> stands for the four attributes \<^verbatim>\<open>unperturbed_FY\<close>,
  \<^verbatim>\<open>unperturbed_ignored_events\<close>, \<^verbatim>\<open>unperturbed_GEF_results\<close> and
  \<^verbatim>\<open>unperturbed_TALYS_results\<close>; it is \<open>None\<close> when the thread of the unperturbed
  simulation died and left the attributes at their initial values.
\<close>

record 'o Reaction =
  reac_distribution_flag :: string
  reac_With_TALYS_flag :: bool
  reac_program_flag :: string
  reac_dictionary_unpert_param_name_val :: "(string \<times> real) list"
  list_of_Mod_Param_objects :: "'o Modified_Parameter list"
  list_of_TMC_Objects :: "'o TMC_Object list"
  reac_unperturbed :: "'o option"
  reac_reaction_info :: reaction_info

subsection \<open>\<^verbatim>\<open>Modified_Parameter.__init__\<close> and \<^verbatim>\<open>TMC_Mod_Param_object.__init__\<close>\<close>

text \<open>
  The list of random numbers of one parameter. \<open>draw i\<close> is the \<open>i\<close>-th variate of the
  generator the constructor creates: a number of the unit interval for \<^verbatim>\<open>uniform\<close>
  (numpy returns \<open>low + (high - low) * draw i\<close>), a standard normal variate for
  \<^verbatim>\<open>normal\<close> (numpy returns \<open>loc + scale * draw i\<close>). For \<^verbatim>\<open>max-min\<close> the list is the
  constant \<^verbatim>\<open>[1,1.5]\<close> and \<open>num_of_rands\<close> is not read.
\<close>

definition Modified_Parameter_init ::
  "(nat \<Rightarrow> real) \<Rightarrow> string \<Rightarrow> real \<Rightarrow> nat \<Rightarrow> string \<Rightarrow> py_error + 'o Modified_Parameter" where
  "Modified_Parameter_init draw param_name unpert_param_val num_of_rands distribution_flag =
     (if distribution_flag = ''uniform'' then
        (let scaling_number_uniform = 1 / 2;
             upper_lim = \<bar>unpert_param_val\<bar> + scaling_number_uniform * \<bar>unpert_param_val\<bar>;
             lower_lim = \<bar>unpert_param_val\<bar> - scaling_number_uniform * \<bar>unpert_param_val\<bar>
         in Inr \<lparr>mp_param_name = param_name, mp_unpert_param_val = unpert_param_val,
                 list_of_Random_Parameter_Value_objects = [],
                 list_of_rand_num =
                   map (\<lambda>i. lower_lim + (upper_lim - lower_lim) * draw i) [0..<num_of_rands]\<rparr>)
      else if distribution_flag = ''normal'' then
        (case gaussian_st_dev_for_parameter param_name unpert_param_val of
           Inl e \<Rightarrow> Inl e
         | Inr GEF_st_dev \<Rightarrow>
             Inr \<lparr>mp_param_name = param_name, mp_unpert_param_val = unpert_param_val,
                  list_of_Random_Parameter_Value_objects = [],
                  list_of_rand_num =
                    map (\<lambda>i. unpert_param_val + \<bar>GEF_st_dev\<bar> * draw i) [0..<num_of_rands]\<rparr>)
      else if distribution_flag = ''max-min'' then
        Inr \<lparr>mp_param_name = param_name, mp_unpert_param_val = unpert_param_val,
             list_of_Random_Parameter_Value_objects = [],
             list_of_rand_num = [1, 3 / 2]\<rparr>
      else Inl SystemExit)"

text \<open>One random number per object; \<open>draw\<close> is the single variate behind it.\<close>

definition TMC_Mod_Param_object_init ::
  "real \<Rightarrow> string \<Rightarrow> real \<Rightarrow> string \<Rightarrow> py_error + TMC_Mod_Param_object" where
  "TMC_Mod_Param_object_init draw parameter_name unperturbed_param_val distribution_flag =
     (if distribution_flag = ''uniform'' then
        (let scaling_number_uniform = 1 / 2;
             upper_lim = \<bar>unperturbed_param_val\<bar> + scaling_number_uniform * \<bar>unperturbed_param_val\<bar>;
             lower_lim = \<bar>unperturbed_param_val\<bar> - scaling_number_uniform * \<bar>unperturbed_param_val\<bar>
         in Inr \<lparr>tmp_param_name = parameter_name, tmp_unpert_param_val = unperturbed_param_val,
                 tmp_pert_param_val = PyNone,
                 tmp_random_value = lower_lim + (upper_lim - lower_lim) * draw\<rparr>)
      else if distribution_flag = ''normal'' then
        (case gaussian_st_dev_for_parameter parameter_name unperturbed_param_val of
           Inl e \<Rightarrow> Inl e
         | Inr GEF_st_dev \<Rightarrow>
             Inr \<lparr>tmp_param_name = parameter_name, tmp_unpert_param_val = unperturbed_param_val,
                  tmp_pert_param_val = PyNone,
                  tmp_random_value = unperturbed_param_val + \<bar>GEF_st_dev\<bar> * draw\<rparr>)
      else Inl SystemExit)"

subsection \<open>The environment of a campaign\<close>

text \<open>
  Everything a run reads from outside the program:
  \<^item> \<open>cpu_count\<close>: the value of \<^verbatim>\<open>os.cpu_count()\<close>;
  \<^item> \<open>param_to_vary\<close>: the list \<^verbatim>\<open>Parameters_to_vary.parameters_to_vary()\<close> returns;
  \<^item> \<open>Parameters_bas\<close>: the lines of the GEF file \<^verbatim>\<open>Parameters.bas\<close>, each as the name
    and the value it holds (fields 0 and 2 of the split line);
  \<^item> \<open>sampler_variate p i\<close>: the \<open>i\<close>-th variate of the generator created for parameter
    \<open>p\<close>; \<open>special_uniform_variate\<close> and \<open>special_normal_variate\<close>: the variates drawn
    for the special-case parameters;
  \<^item> \<open>simulate\<close>: GEF, the reduction of its output, the parsers and, when the flag is
    set, TALYS, as a function of the unique thread identifier and of the rows written
    to \<^verbatim>\<open>MyParameters.dat\<close>; \<open>Inl\<close> is a fatal failure of the trial;
  \<^item> \<open>float_repr\<close>: how Python prints a float in an f-string;
  \<^item> \<open>completion_order_*\<close>: the order in which the futures of a pool are iterated, which
    the program does not determine.
\<close>

record 'o environment =
  cpu_count :: nat
  param_to_vary :: "nat list"
  Parameters_bas :: "(string \<times> real) list"
  sampler_variate :: "string \<Rightarrow> nat \<Rightarrow> real"
  special_uniform_variate :: "string \<Rightarrow> nat \<Rightarrow> real"
  special_normal_variate :: "string \<Rightarrow> nat \<Rightarrow> real"
  simulate :: "string \<Rightarrow> (string \<times> pyval) list \<Rightarrow> bool \<Rightarrow> py_error + 'o"
  float_repr :: "real \<Rightarrow> string"
  completion_order_trials ::
    "'o Random_Parameter_value list \<Rightarrow> 'o Random_Parameter_value list"
  completion_order_groups :: "'o Modified_Parameter list \<Rightarrow> 'o Modified_Parameter list"
  completion_order_tmc :: "'o TMC_Object list \<Rightarrow> 'o TMC_Object list"

text \<open>Python's \<^verbatim>\<open>str\<close> of an integer.\<close>

fun string_of_nat :: "nat \<Rightarrow> string" where
  "string_of_nat n =
     (if n < 10 then [''0123456789'' ! n]
      else string_of_nat (n div 10) @ [''0123456789'' ! (n mod 10)])"

declare string_of_nat.simps [simp del]

definition string_of_int :: "int \<Rightarrow> string" where
  "string_of_int i = (if i < 0 then ''-'' @ string_of_nat (nat (- i)) else string_of_nat (nat i))"

text \<open>
  The results of a list of futures: the list of their values, or the first exception
  that \<^verbatim>\<open>result()\<close> raises again.
\<close>

fun collect :: "('e + 'a) list \<Rightarrow> 'e + 'a list" where
  "collect [] = Inr []"
| "collect (x # xs) =
     (case x of
        Inl e \<Rightarrow> Inl e
      | Inr a \<Rightarrow> (case collect xs of Inl e \<Rightarrow> Inl e | Inr as \<Rightarrow> Inr (a # as)))"

subsection \<open>Single-parameter mode\<close>

text \<open>\<^verbatim>\<open>Modified_Parameter.create_perturbed_FY\<close>: one trial of one parameter.\<close>

definition create_perturbed_FY ::
  "'o environment \<Rightarrow> string \<Rightarrow> real \<Rightarrow> real \<Rightarrow> nat \<Rightarrow> bool \<Rightarrow> string
     \<Rightarrow> py_error + 'o Random_Parameter_value" where
  "create_perturbed_FY env param_name unpert_param_val rand_num enumeration_rand_num
       With_TALYS_flag distribution_flag =
     (let unique_pert_thread_ID =
            ''Param_'' @ param_name @ ''_'' @ string_of_nat enumeration_rand_num;
          pert_param_val =
            create_perturbed_parameter_value
              (special_uniform_variate env param_name enumeration_rand_num)
              (special_normal_variate env param_name enumeration_rand_num)
              param_name rand_num unpert_param_val distribution_flag
      in case simulate env unique_pert_thread_ID [(param_name, pert_param_val)] With_TALYS_flag of
           Inl e \<Rightarrow> Inl e
         | Inr results \<Rightarrow>
             Inr \<lparr>rpv_param_name = param_name, rpv_unpert_param_val = unpert_param_val,
                  rpv_random_value = rand_num,
                  rpv_enumeration_rand_num = enumeration_rand_num,
                  rpv_pert_param_val = pert_param_val, rpv_results = results\<rparr>)"

text \<open>
  \<^verbatim>\<open>Reaction.perturbed_calculations_single_parameter\<close>: one future per element of
  \<^verbatim>\<open>mod_param_object.list_of_rand_num\<close>. A pool of no worker raises \<^verbatim>\<open>ValueError\<close>,
  which the \<^verbatim>\<open>except\<close> clause turns into \<^verbatim>\<open>sys.exit\<close>, as it does with any exception
  of a trial; a \<^verbatim>\<open>SystemExit\<close> of a trial passes through.
\<close>

definition perturbed_calculations_single_parameter ::
  "'o environment \<Rightarrow> string \<Rightarrow> (string \<times> real) list \<Rightarrow> nat \<Rightarrow> int \<Rightarrow> bool \<Rightarrow> string
     \<Rightarrow> py_error + 'o Modified_Parameter" where
  "perturbed_calculations_single_parameter env key dict_unpert_param_name_val num_of_rand
       num_of_workers With_TALYS_flag distribution_flag =
     (case map_of dict_unpert_param_name_val key of
        None \<Rightarrow> Inl KeyError
      | Some unpert_param_value \<Rightarrow>
         (case Modified_Parameter_init (sampler_variate env key) key unpert_param_value
                 num_of_rand distribution_flag of
            Inl e \<Rightarrow> Inl e
          | Inr mod_param_object \<Rightarrow>
             (let simultaneous_threads_per_param =
                    \<lfloor>(real (cpu_count env) - of_int num_of_workers) / 2\<rfloor>
              in if simultaneous_threads_per_param \<le> 0 then Inl SystemExit
                 else
                   (case collect
                           (map (\<lambda>(n, rand_num).
                                   create_perturbed_FY env key unpert_param_value rand_num n
                                     With_TALYS_flag distribution_flag)
                              (enumerate 0 (list_of_rand_num mod_param_object))) of
                      Inl e \<Rightarrow> Inl SystemExit
                    | Inr results \<Rightarrow>
                        Inr (mod_param_object
                               \<lparr>list_of_Random_Parameter_Value_objects :=
                                  completion_order_trials env results\<rparr>)))))"

subsection \<open>All-parameters mode\<close>

text \<open>
  The loop of \<^verbatim>\<open>create_perturbed_TMC_FY\<close> over the items of the dictionary: one
  \<^verbatim>\<open>TMC_Mod_Param_object\<close> per parameter, then its perturbed value.
\<close>

fun TMC_parameters ::
  "'o environment \<Rightarrow> nat \<Rightarrow> string \<Rightarrow> (string \<times> real) list
     \<Rightarrow> py_error + TMC_Mod_Param_object list" where
  "TMC_parameters env n distribution_flag [] = Inr []"
| "TMC_parameters env n distribution_flag ((param_name, unpert_param_val) # items) =
     (case TMC_Mod_Param_object_init (sampler_variate env param_name n) param_name
             unpert_param_val distribution_flag of
        Inl e \<Rightarrow> Inl e
      | Inr tmc_mod_param_obj \<Rightarrow>
         (case TMC_parameters env n distribution_flag items of
            Inl e \<Rightarrow> Inl e
          | Inr objs \<Rightarrow>
             Inr (tmc_mod_param_obj
                    \<lparr>tmp_pert_param_val :=
                       create_perturbed_parameter_value
                         (special_uniform_variate env param_name n)
                         (special_normal_variate env param_name n)
                         param_name (tmp_random_value tmc_mod_param_obj)
                         unpert_param_val distribution_flag\<rparr>
                  # objs)))"

definition create_perturbed_TMC_FY ::
  "'o environment \<Rightarrow> (string \<times> real) list \<Rightarrow> nat \<Rightarrow> bool \<Rightarrow> string
     \<Rightarrow> py_error + 'o TMC_Object" where
  "create_perturbed_TMC_FY env dict_unpert_param_name_val enumeration_rand_num
       With_TALYS_flag distribution_flag =
     (case TMC_parameters env enumeration_rand_num distribution_flag
             dict_unpert_param_name_val of
        Inl e \<Rightarrow> Inl e
      | Inr objs \<Rightarrow>
         (case simulate env (''TMC_'' @ string_of_nat enumeration_rand_num)
                 (map (\<lambda>obj. (tmp_param_name obj, tmp_pert_param_val obj)) objs)
                 With_TALYS_flag of
            Inl e \<Rightarrow> Inl e
          | Inr results \<Rightarrow>
             Inr \<lparr>tmc_dictionary_unpert_param_name_val = dict_unpert_param_name_val,
                  tmc_enumeration_rand_val = enumeration_rand_num,
                  list_of_TMC_Mod_Param_objects = objs, tmc_results = results\<rparr>))"

subsection \<open>Persistence\<close>

text \<open>
  A directory is the list of its entries in the order \<^verbatim>\<open>os.scandir\<close> yields them. The
  content of a file is what \<^verbatim>\<open>pickle.load\<close> makes of it: a \<^verbatim>\<open>Reaction\<close> object,
  another object, or an exception. \<^verbatim>\<open>pickle.dump\<close> followed by \<^verbatim>\<open>pickle.load\<close> is
  taken to return the object that was dumped.
\<close>

datatype 'o file_content =
    Pickled_Reaction "'o Reaction"
  | Pickled_other
  | Not_a_pickle

record 'o dir_entry =
  entry_name :: string
  entry_is_file :: bool
  entry_content :: "'o file_content"

text \<open>The name \<^verbatim>\<open>f'Z{Z_target}_A{A_compound}_n_E{E_reaction}MeV.pkl'\<close>.\<close>

definition pickle_file_name :: "string \<Rightarrow> string \<Rightarrow> string \<Rightarrow> string" where
  "pickle_file_name Z A E = ''Z'' @ Z @ ''_A'' @ A @ ''_n_E'' @ E @ ''MeV.pkl''"

subsection \<open>\<^verbatim>\<open>Reaction.__init__\<close>\<close>

text \<open>The assignment \<^verbatim>\<open>d[k] = v\<close> on a dictionary that keeps insertion order.\<close>

fun dict_set :: "(string \<times> real) list \<Rightarrow> string \<Rightarrow> real \<Rightarrow> (string \<times> real) list" where
  "dict_set [] k v = [(k, v)]"
| "dict_set ((k', v') # d) k v = (if k' = k then (k, v) # d else (k', v') # dict_set d k v)"

text \<open>
  The loop over \<^verbatim>\<open>param_to_vary\<close> that fills \<^verbatim>\<open>dict_unpert_param_name_val\<close>; lines
  55 and 98 are skipped, a line number beyond the file raises \<^verbatim>\<open>IndexError\<close>.
\<close>

fun read_parameters ::
  "(string \<times> real) list \<Rightarrow> nat list \<Rightarrow> (string \<times> real) list
     \<Rightarrow> py_error + (string \<times> real) list" where
  "read_parameters list_of_parameters [] d = Inr d"
| "read_parameters list_of_parameters (i # rest) d =
     (if i \<noteq> 55 \<and> i \<noteq> 98 then
        (if i < length list_of_parameters then
           read_parameters list_of_parameters rest
             (dict_set d (fst (list_of_parameters ! i)) (snd (list_of_parameters ! i)))
         else Inl IndexError)
      else read_parameters list_of_parameters rest d)"

text \<open>
  The constructor. After the loop the statement \<^verbatim>\<open>del f,i, list_of_parameters, param_to_vary\<close>
  raises \<^verbatim>\<open>UnboundLocalError\<close> when the loop never ran. The unperturbed simulation runs
  in a thread of its own, whose failure leaves the attributes unset and does not stop
  the run. Every exception of a worker ends the program: an \<^verbatim>\<open>Exception\<close> through
  \<^verbatim>\<open>sys.exit(e)\<close>, a \<^verbatim>\<open>SystemExit\<close> by passing through. The last step writes the
  pickle file; the function returns the object and the file.
\<close>

definition Reaction_init ::
  "'o environment \<Rightarrow> int \<Rightarrow> int \<Rightarrow> real \<Rightarrow> nat \<Rightarrow> nat \<Rightarrow> string \<Rightarrow> bool \<Rightarrow> string
     \<Rightarrow> py_error + ('o Reaction \<times> 'o dir_entry)" where
  "Reaction_init env Z_target A_compound E_reaction runs_MC number_of_randoms dist_flag
       with_TALYS prog_flag =
     (case read_parameters (Parameters_bas env) (param_to_vary env) [] of
        Inl e \<Rightarrow> Inl e
      | Inr dict_unpert_param_name_val \<Rightarrow>
         if param_to_vary env = [] then Inl UnboundLocalError
         else
           (let self =
                  \<lparr>reac_distribution_flag = dist_flag, reac_With_TALYS_flag = with_TALYS,
                   reac_program_flag = prog_flag,
                   reac_dictionary_unpert_param_name_val = dict_unpert_param_name_val,
                   list_of_Mod_Param_objects = [], list_of_TMC_Objects = [],
                   reac_unperturbed =
                     (case simulate env ''Unperturbed_Param'' [] with_TALYS of
                        Inl e \<Rightarrow> None
                      | Inr results \<Rightarrow> Some results),
                   reac_reaction_info =
                     \<lparr>info_MC_runs = runs_MC, info_Z_target = Z_target,
                      info_A_compound = A_compound, info_E_reaction = E_reaction,
                      info_num_of_rand = number_of_randoms\<rparr>\<rparr>;
                perturbed =
                  (if prog_flag = ''Single_Parameters'' then
                     (let number_of_workers = \<lfloor>(real (cpu_count env) - 2) / 3\<rfloor>
                      in if number_of_workers \<le> 0 then Inl SystemExit
                         else
                           (case collect
                                   (map (\<lambda>(key, v).
                                           perturbed_calculations_single_parameter env key
                                             dict_unpert_param_name_val number_of_randoms
                                             number_of_workers with_TALYS dist_flag)
                                      dict_unpert_param_name_val) of
                              Inl e \<Rightarrow> Inl SystemExit
                            | Inr groups \<Rightarrow>
                                Inr (self\<lparr>list_of_Mod_Param_objects :=
                                            completion_order_groups env groups\<rparr>)))
                   else if prog_flag = ''TMC'' then
                     (let max_multithreads_TMC = \<lfloor>real (cpu_count env) * (2 / 3)\<rfloor>
                      in if max_multithreads_TMC \<le> 0 then Inl SystemExit
                         else
                           (case collect
                                   (map (\<lambda>n. create_perturbed_TMC_FY env
                                                dict_unpert_param_name_val n with_TALYS dist_flag)
                                      [0..<number_of_randoms]) of
                              Inl e \<Rightarrow> Inl SystemExit
                            | Inr objs \<Rightarrow>
                                Inr (self\<lparr>list_of_TMC_Objects := completion_order_tmc env objs\<rparr>)))
                   else Inl SystemExit)
            in case perturbed of
                 Inl e \<Rightarrow> Inl e
               | Inr reac \<Rightarrow>
                   Inr (reac,
                        \<lparr>entry_name =
                           pickle_file_name (string_of_int Z_target) (string_of_int A_compound)
                             (float_repr env E_reaction),
                         entry_is_file = True,
                         entry_content = Pickled_Reaction reac\<rparr>)))"

subsection \<open>\<^verbatim>\<open>McPUFF_Perturbed_Data.__init__\<close>\<close>






subsection \<open>Test data\<close>

text \<open>
  A raw table for the compound nucleus 236: rows 0, 2 and 4 are the same split (row 2
  with the heavy fragment listed first), rows 1 and 3 are multi-chance events of one
  split, rows 5 and 6 are a second split and row 7 occurs once.
\<close>

definition mk_event ::
  "real \<Rightarrow> real \<Rightarrow> real \<Rightarrow> real \<Rightarrow> real \<Rightarrow> real \<Rightarrow> real \<Rightarrow> event" where
  "mk_event z1 a1 z2 a2 tke e1 e2 =
     \<lparr>Z1 = z1, A1sci = a1, Z2 = z2, A2sci = a2, TKEpre = tke, Eexc1 = e1, Eexc2 = e2,
      En_light = e1 / 2, En_heavy = e2 / 2, Eg_light = 1, Eg_heavy = 2\<rparr>"

definition example_FY :: "event list" where
  "example_FY =
     [mk_event 36 96 56 140 170 10 12,
      mk_event 38 98 54 137 160 5 5,
      mk_event 56 140 36 96 172 14 8,
      mk_event 38 98 54 137 161 6 6,
      mk_event 36 96 56 140 174 12 10,
      mk_event 40 100 52 136 168 9 11,
      mk_event 40 100 52 136 166 9 11,
      mk_event 38 98 54 138 150 7 7]"

text \<open>The populated rows the reduction of \<open>example_FY\<close> gives, for 7 and for 11 columns.\<close>

definition example_table :: "real list list" where
  "example_table =
     [[36, 96, 56, 140, 3 / 5, 172, 22, 12, 2, 10, 2],
      [40, 100, 52, 136, 2 / 5, 167, 20, 9, 0, 11, 0]]
     @ replicate 298 (replicate 11 0)"

definition example_table_plus :: "real list list" where
  "example_table_plus =
     [[36, 96, 56, 140, 3 / 5, 172, 22, 12, 2, 10, 2, 6, 1, 5, 1, 1, 0, 2, 0],
      [40, 100, 52, 136, 2 / 5, 167, 20, 9, 0, 11, 0, 9 / 2, 0, 11 / 2, 0, 1, 0, 2, 0]]
     @ replicate 298 (replicate 19 0)"



definition example_variate :: "string \<Rightarrow> nat \<Rightarrow> real" where
  "example_variate p i = 1 / 2"

definition example_simulate :: "string \<Rightarrow> (string \<times> pyval) list \<Rightarrow> bool \<Rightarrow> py_error + string" where
  "example_simulate unique_thread_ID rows With_TALYS_flag = Inr unique_thread_ID"

definition example_float_repr :: "real \<Rightarrow> string" where
  "example_float_repr x = ''2.53e-08''"

definition example_env :: "string environment" where
  "example_env =
     \<lparr>cpu_count = 8, param_to_vary = [0, 1],
      Parameters_bas = [(''POLARfac'', 1), (''kappa'', 0)],
      sampler_variate = example_variate,
      special_uniform_variate = example_variate,
      special_normal_variate = example_variate,
      simulate = example_simulate,
      float_repr = example_float_repr,
      completion_order_trials = rev,
      completion_order_groups = rev,
      completion_order_tmc = rev\<rparr>"

text \<open>
  Four campaigns in this environment: five trials per parameter requested under
  \<^verbatim>\<open>max-min\<close> and three under \<^verbatim>\<open>uniform\<close> in the single-parameter mode, no trial
  requested under \<^verbatim>\<open>max-min\<close> and two under \<^verbatim>\<open>uniform\<close> in the all-parameters mode.
\<close>

definition example_single_max_min :: "py_error + (string Reaction \<times> string dir_entry)" where
  "example_single_max_min =
     Reaction_init example_env 92 236 (253 / 10 ^ 10) 100000 5 ''max-min'' False
       ''Single_Parameters''"

definition example_single_uniform :: "py_error + (string Reaction \<times> string dir_entry)" where
  "example_single_uniform =
     Reaction_init example_env 92 236 (253 / 10 ^ 10) 100000 3 ''uniform'' False
       ''Single_Parameters''"

definition example_tmc_no_trial :: "py_error + (string Reaction \<times> string dir_entry)" where
  "example_tmc_no_trial =
     Reaction_init example_env 92 236 (253 / 10 ^ 10) 100000 0 ''max-min'' False ''TMC''"

section \<open>Properties of the yield reduction\<close>

subsection \<open>Counting rows\<close>




lemma count_ignored_alt:
  "count_ignored ks = length (filter (\<lambda>k. count_list ks k = 1) (unique_rows ks))"
  by (simp add: count_ignored_def unique_counts_def filter_map comp_def)


lemma count_list_map_conv:
  "count_list (map f xs) k = length (filter (\<lambda>x. f x = k) xs)"
  by (induction xs) auto

lemma rows_matching_swapped:
  "map g (rows_matching k (map swap_if_Al_larger xs)) =
   map (g \<circ> swap_if_Al_larger) (filter (\<lambda>e. key_of (swap_if_Al_larger e) = k) xs)"
  by (induction xs) (auto simp: rows_matching_def)

lemma swap_frame:
  "TKEpre (swap_if_Al_larger e) = TKEpre e"
  "Eexc1 (swap_if_Al_larger e) = Eexc1 e"
  "Eexc2 (swap_if_Al_larger e) = Eexc2 e"
  "En_light (swap_if_Al_larger e) = En_light e"
  "En_heavy (swap_if_Al_larger e) = En_heavy e"
  "Eg_light (swap_if_Al_larger e) = Eg_light e"
  "Eg_heavy (swap_if_Al_larger e) = Eg_heavy e"
  by (simp_all add: swap_if_Al_larger_def swap_fragments_def)

lemma GEF_Inr_D:
  assumes "GEF_FY_for_TALYS columns FY0 A n = Inr (T, ign)"
  shows "ign = count_ignored (map key_of (swapped_table A FY0))"
    and "T = map (summary_row columns (swapped_table A FY0) ign)
               (rows_more_than_once (map key_of (swapped_table A FY0)))
             @ replicate (300 - length (rows_more_than_once (map key_of (swapped_table A FY0))))
                 (replicate (table_columns columns) 0)"
    and "rows_more_than_once (map key_of (swapped_table A FY0)) \<noteq> []"
    and "length (rows_more_than_once (map key_of (swapped_table A FY0))) \<le> 300"
  using assms by (auto simp: GEF_FY_for_TALYS_def Let_def split: if_splits)

lemma GEF_row:
  assumes "GEF_FY_for_TALYS columns FY0 A n = Inr (T, ign)"
    and "i < length (rows_more_than_once (map key_of (swapped_table A FY0)))"
  shows "T ! i = summary_row columns (swapped_table A FY0) ign
                   (rows_more_than_once (map key_of (swapped_table A FY0)) ! i)"
  using assms(2) by (simp add: GEF_Inr_D(2)[OF assms(1)] nth_append)

lemma summary_row_nth:
  "summary_row columns FY ign k ! 0 = fst k"
  "summary_row columns FY ign k ! 1 = fst (snd k)"
  "summary_row columns FY ign k ! Suc 0 = fst (snd k)"
  "summary_row columns FY ign k ! 2 = fst (snd (snd k))"
  "summary_row columns FY ign k ! 3 = snd (snd (snd k))"
  "summary_row columns FY ign k ! 4 =
     real (count_list (map key_of FY) k) / (real (length FY) - real ign)"
  "summary_row columns FY ign k ! 5 = np_mean (map TKEpre (rows_matching k FY))"
  "summary_row columns FY ign k ! 6 = np_mean (map (\<lambda>e. Eexc1 e + Eexc2 e) (rows_matching k FY))"
  "summary_row columns FY ign k ! 7 = np_mean (map Eexc1 (rows_matching k FY))"
  "summary_row columns FY ign k ! 8 = np_std_ddof1 (map Eexc1 (rows_matching k FY))"
  "summary_row columns FY ign k ! 9 = np_mean (map Eexc2 (rows_matching k FY))"
  "summary_row columns FY ign k ! 10 = np_std_ddof1 (map Eexc2 (rows_matching k FY))"
  by (simp_all add: summary_row_def Let_def)

lemma summary_row_nth_ext:
  "summary_row 11 FY ign k ! 11 = np_mean (map En_light (rows_matching k FY))"
  "summary_row 11 FY ign k ! 12 = np_std_ddof1 (map En_light (rows_matching k FY))"
  "summary_row 11 FY ign k ! 13 = np_mean (map En_heavy (rows_matching k FY))"
  "summary_row 11 FY ign k ! 14 = np_std_ddof1 (map En_heavy (rows_matching k FY))"
  "summary_row 11 FY ign k ! 15 = np_mean (map Eg_light (rows_matching k FY))"
  "summary_row 11 FY ign k ! 16 = np_std_ddof1 (map Eg_light (rows_matching k FY))"
  "summary_row 11 FY ign k ! 17 = np_mean (map Eg_heavy (rows_matching k FY))"
  "summary_row 11 FY ign k ! 18 = np_std_ddof1 (map Eg_heavy (rows_matching k FY))"
  by (simp_all add: summary_row_def Let_def nth_append)

text \<open>
  Claim C1, as the code has it. In every retained row of the summary table the yield is
  the number of events with that row's split divided by the number of events that are
  left after the multi-chance rows were deleted, minus the number of splits that occur
  once. The count and the denominator are taken from the table after the deletion, not
  from the raw table; \<open>num_of_events\<close> is not used.
\<close>

theorem yield_of_retained_row:
  assumes "GEF_FY_for_TALYS columns FY0 A n = Inr (T, ign)"
    and "i < length (rows_more_than_once (map key_of (swapped_table A FY0)))"
  shows "(T ! i ! 0, T ! i ! 1, T ! i ! 2, T ! i ! 3)
           = rows_more_than_once (map key_of (swapped_table A FY0)) ! i
       \<and> T ! i ! 4 =
           real (length (filter (\<lambda>e. key_of (swap_if_Al_larger e) = (T ! i ! 0, T ! i ! 1, T ! i ! 2, T ! i ! 3))
                    (delete_multichance A FY0)))
           / (real (length (delete_multichance A FY0)) - real ign)
       \<and> ign = length (filter (\<lambda>k. count_list (map key_of (swapped_table A FY0)) k = 1)
                   (unique_rows (map key_of (swapped_table A FY0))))"
proof -
  let ?R = "rows_more_than_once (map key_of (swapped_table A FY0))"
  have row: "T ! i = summary_row columns (swapped_table A FY0) ign (?R ! i)"
    by (rule GEF_row[OF assms])
  have k: "(T ! i ! 0, T ! i ! 1, T ! i ! 2, T ! i ! 3) = ?R ! i"
    by (simp add: row summary_row_nth)
  have c: "count_list (map key_of (swapped_table A FY0)) (?R ! i)
        = length (filter (\<lambda>e. key_of (swap_if_Al_larger e) = ?R ! i) (delete_multichance A FY0))"
    by (simp add: swapped_table_def count_list_map_conv comp_def)
  have y: "T ! i ! 4 = real (count_list (map key_of (swapped_table A FY0)) (?R ! i))
             / (real (length (delete_multichance A FY0)) - real ign)"
    by (simp add: row summary_row_nth) (simp add: swapped_table_def)
  have g: "ign = length (filter (\<lambda>k. count_list (map key_of (swapped_table A FY0)) k = 1)
                   (unique_rows (map key_of (swapped_table A FY0))))"
    using GEF_Inr_D(1)[OF assms(1)] by (simp add: count_ignored_alt)
  show ?thesis using k y c g by simp
qed


lemma sum_list_const_zero: "(\<Sum>r\<leftarrow>replicate m z. g r) = real m * g z"
  by (induction m) (simp_all add: algebra_simps)





lemmas reducer_defs = GEF_FY_for_TALYS_def Let_def swapped_table_def delete_multichance_def
  is_multichance_def swap_if_Al_larger_def swap_fragments_def key_of_def
  rows_more_than_once_def unique_rows_def count_ignored_def unique_counts_def summary_row_def
  rows_matching_def np_mean_def np_std_ddof1_def table_columns_def example_FY_def mk_event_def
  example_table_def example_table_plus_def

lemma example_GEF: "GEF_FY_for_TALYS 7 example_FY 236 8 = Inr (example_table, 1)"
  by (simp add: reducer_defs)

lemma example_GEF_plus: "GEF_FY_for_TALYS 11 example_FY 236 8 = Inr (example_table_plus, 1)"
  by (simp add: reducer_defs)

lemma example_retained:
  "rows_more_than_once (map key_of (swapped_table 236 example_FY))
     = [(36, 96, 56, 140), (40, 100, 52, 136)]"
  by (simp add: reducer_defs)

text \<open>The example: eight raw events, two of them multi-chance, one split occurring once.\<close>

theorem yield_of_retained_row_witness:
  "GEF_FY_for_TALYS 7 example_FY 236 8 = Inr (example_table, 1)
   \<and> (0::nat) < length (rows_more_than_once (map key_of (swapped_table 236 example_FY)))
   \<and> (example_table ! 0 ! 0, example_table ! 0 ! 1, example_table ! 0 ! 2, example_table ! 0 ! 3)
       = (36, 96, 56, 140)
   \<and> example_table ! 0 ! 4 = 3 / (real (length (delete_multichance 236 example_FY)) - real (1::nat))
   \<and> length (delete_multichance 236 example_FY) = 6"
proof -
  have h1: "GEF_FY_for_TALYS 7 example_FY 236 8 = Inr (example_table, 1)"
    by (rule example_GEF)
  have h2: "(0::nat) < length (rows_more_than_once (map key_of (swapped_table 236 example_FY)))"
    by (simp add: example_retained)
  have l: "length (delete_multichance 236 example_FY) = 6"
    by (simp add: reducer_defs)
  have t: "example_table ! 0 ! 4 = 3 / 5" by (simp add: example_table_def)
  show ?thesis
    using h1 h2 l t yield_of_retained_row[OF h1 h2] by (simp add: example_retained)
qed

text \<open>
  The claim as stated has the raw event count in the denominator. For the example this
  would give \<open>3 / (8 - 1)\<close>; the table holds \<open>3 / 5\<close>.
\<close>

theorem yield_denominator_counterexample:
  "GEF_FY_for_TALYS 7 example_FY 236 8 = Inr (example_table, 1)
   \<and> length example_FY = 8
   \<and> example_table ! 0 ! 4 = 3 / 5
   \<and> example_table ! 0 ! 4 \<noteq> 3 / (real (length example_FY) - real (1::nat))"
  by (simp add: example_GEF) (simp add: example_FY_def example_table_def)



text \<open>
  Claim C3. The rows whose mass numbers do not add up to the compound mass number are
  deleted from the table as recorded, before any fragments are swapped, and the result
  of the function is the result on the table without them: a multi-chance row at any
  position changes no row, count or average.
\<close>

theorem multichance_removed_before_swap:
  assumes "is_multichance A m"
  shows "swapped_table A FY0
           = map swap_if_Al_larger (filter (\<lambda>e. A1sci e + A2sci e = of_int A) FY0)
       \<and> GEF_FY_for_TALYS columns FY0 A n
           = GEF_FY_for_TALYS columns (filter (\<lambda>e. A1sci e + A2sci e = of_int A) FY0) A n'
       \<and> GEF_FY_for_TALYS columns (xs @ m # ys) A n = GEF_FY_for_TALYS columns (xs @ ys) A n'"
proof -
  have d: "delete_multichance A FY = filter (\<lambda>e. A1sci e + A2sci e = of_int A) FY" for FY
    by (simp add: delete_multichance_def is_multichance_def)
  have i: "delete_multichance A (delete_multichance A FY) = delete_multichance A FY" for FY
    by (simp add: delete_multichance_def)
  have a: "swapped_table A (filter (\<lambda>e. A1sci e + A2sci e = of_int A) FY0) = swapped_table A FY0"
    using i[of FY0] by (simp add: swapped_table_def d)
  have b: "swapped_table A (xs @ m # ys) = swapped_table A (xs @ ys)"
    using assms by (simp add: swapped_table_def delete_multichance_def)
  show ?thesis
    by (simp add: GEF_FY_for_TALYS_def a b) (simp add: swapped_table_def d)
qed

theorem multichance_removed_before_swap_witness:
  "is_multichance 236 (mk_event 38 98 54 137 160 5 5)
   \<and> swapped_table 236 example_FY
       = map swap_if_Al_larger (filter (\<lambda>e. A1sci e + A2sci e = of_int 236) example_FY)
   \<and> GEF_FY_for_TALYS 7 example_FY 236 8
       = GEF_FY_for_TALYS 7 (filter (\<lambda>e. A1sci e + A2sci e = of_int 236) example_FY) 236 6
   \<and> GEF_FY_for_TALYS 7
        ([mk_event 36 96 56 140 170 10 12] @ mk_event 38 98 54 137 160 5 5
           # [mk_event 56 140 36 96 172 14 8]) 236 8
       = GEF_FY_for_TALYS 7
           ([mk_event 36 96 56 140 170 10 12] @ [mk_event 56 140 36 96 172 14 8]) 236 6"
proof -
  have h: "is_multichance 236 (mk_event 38 98 54 137 160 5 5)"
    by (simp add: is_multichance_def mk_event_def)
  show ?thesis
    using h multichance_removed_before_swap[OF h, where ?FY0.0 = example_FY and columns = 7
        and n = 8 and n' = 6 and xs = "[mk_event 36 96 56 140 170 10 12]"
        and ys = "[mk_event 56 140 36 96 172 14 8]"]
    by blast
qed

text \<open>
  Claim C9. The swap exchanges the two \<open>(Z, A)\<close> pairs and nothing else. The averages and
  standard deviations of a retained row are therefore those of the energy columns as
  recorded, over the events whose swapped key is the key of the row: column 7 and 8 come
  from column 5 of the raw table, the first-listed fragment, also for the rows that were
  swapped.
\<close>

theorem swap_keeps_energy_columns:
  assumes res: "GEF_FY_for_TALYS columns FY0 A n = Inr (T, ign)"
    and i: "i < length (rows_more_than_once (map key_of (swapped_table A FY0)))"
  shows "(let ind = filter (\<lambda>e. key_of (swap_if_Al_larger e)
                              = rows_more_than_once (map key_of (swapped_table A FY0)) ! i)
                      (delete_multichance A FY0)
          in T ! i ! 5 = np_mean (map TKEpre ind)
           \<and> T ! i ! 6 = np_mean (map (\<lambda>e. Eexc1 e + Eexc2 e) ind)
           \<and> T ! i ! 7 = np_mean (map Eexc1 ind)
           \<and> T ! i ! 8 = np_std_ddof1 (map Eexc1 ind)
           \<and> T ! i ! 9 = np_mean (map Eexc2 ind)
           \<and> T ! i ! 10 = np_std_ddof1 (map Eexc2 ind)
           \<and> (columns = 11 \<longrightarrow>
                 T ! i ! 11 = np_mean (map En_light ind)
               \<and> T ! i ! 12 = np_std_ddof1 (map En_light ind)
               \<and> T ! i ! 13 = np_mean (map En_heavy ind)
               \<and> T ! i ! 14 = np_std_ddof1 (map En_heavy ind)
               \<and> T ! i ! 15 = np_mean (map Eg_light ind)
               \<and> T ! i ! 16 = np_std_ddof1 (map Eg_light ind)
               \<and> T ! i ! 17 = np_mean (map Eg_heavy ind)
               \<and> T ! i ! 18 = np_std_ddof1 (map Eg_heavy ind)))
       \<and> Z1 (swap_fragments e) = Z2 e \<and> A1sci (swap_fragments e) = A2sci e
       \<and> Z2 (swap_fragments e) = Z1 e \<and> A2sci (swap_fragments e) = A1sci e
       \<and> TKEpre (swap_fragments e) = TKEpre e
       \<and> Eexc1 (swap_fragments e) = Eexc1 e \<and> Eexc2 (swap_fragments e) = Eexc2 e
       \<and> En_light (swap_fragments e) = En_light e \<and> En_heavy (swap_fragments e) = En_heavy e
       \<and> Eg_light (swap_fragments e) = Eg_light e \<and> Eg_heavy (swap_fragments e) = Eg_heavy e"
proof -
  let ?k = "rows_more_than_once (map key_of (swapped_table A FY0)) ! i"
  have row: "T ! i = summary_row columns (swapped_table A FY0) ign ?k"
    by (rule GEF_row[OF res i])
  have m: "map g (rows_matching ?k (swapped_table A FY0))
             = map (g \<circ> swap_if_Al_larger)
                 (filter (\<lambda>e. key_of (swap_if_Al_larger e) = ?k) (delete_multichance A FY0))"
    for g :: "event \<Rightarrow> real"
    unfolding swapped_table_def by (rule rows_matching_swapped)
  have f: "TKEpre \<circ> swap_if_Al_larger = TKEpre" "Eexc1 \<circ> swap_if_Al_larger = Eexc1"
    "Eexc2 \<circ> swap_if_Al_larger = Eexc2" "En_light \<circ> swap_if_Al_larger = En_light"
    "En_heavy \<circ> swap_if_Al_larger = En_heavy" "Eg_light \<circ> swap_if_Al_larger = Eg_light"
    "Eg_heavy \<circ> swap_if_Al_larger = Eg_heavy"
    "(\<lambda>e. Eexc1 e + Eexc2 e) \<circ> swap_if_Al_larger = (\<lambda>e. Eexc1 e + Eexc2 e)"
    by (simp_all add: fun_eq_iff swap_frame)
  have base: "T ! i ! 5 = np_mean (map TKEpre (rows_matching ?k (swapped_table A FY0)))"
    "T ! i ! 6 = np_mean (map (\<lambda>e. Eexc1 e + Eexc2 e) (rows_matching ?k (swapped_table A FY0)))"
    "T ! i ! 7 = np_mean (map Eexc1 (rows_matching ?k (swapped_table A FY0)))"
    "T ! i ! 8 = np_std_ddof1 (map Eexc1 (rows_matching ?k (swapped_table A FY0)))"
    "T ! i ! 9 = np_mean (map Eexc2 (rows_matching ?k (swapped_table A FY0)))"
    "T ! i ! 10 = np_std_ddof1 (map Eexc2 (rows_matching ?k (swapped_table A FY0)))"
    unfolding row by (rule summary_row_nth)+
  have ext: "T ! i ! 11 = np_mean (map En_light (rows_matching ?k (swapped_table A FY0)))"
    "T ! i ! 12 = np_std_ddof1 (map En_light (rows_matching ?k (swapped_table A FY0)))"
    "T ! i ! 13 = np_mean (map En_heavy (rows_matching ?k (swapped_table A FY0)))"
    "T ! i ! 14 = np_std_ddof1 (map En_heavy (rows_matching ?k (swapped_table A FY0)))"
    "T ! i ! 15 = np_mean (map Eg_light (rows_matching ?k (swapped_table A FY0)))"
    "T ! i ! 16 = np_std_ddof1 (map Eg_light (rows_matching ?k (swapped_table A FY0)))"
    "T ! i ! 17 = np_mean (map Eg_heavy (rows_matching ?k (swapped_table A FY0)))"
    "T ! i ! 18 = np_std_ddof1 (map Eg_heavy (rows_matching ?k (swapped_table A FY0)))"
    if "columns = 11"
    unfolding row that by (rule summary_row_nth_ext)+
  have frame: "Z1 (swap_fragments e) = Z2 e \<and> A1sci (swap_fragments e) = A2sci e
       \<and> Z2 (swap_fragments e) = Z1 e \<and> A2sci (swap_fragments e) = A1sci e
       \<and> TKEpre (swap_fragments e) = TKEpre e
       \<and> Eexc1 (swap_fragments e) = Eexc1 e \<and> Eexc2 (swap_fragments e) = Eexc2 e
       \<and> En_light (swap_fragments e) = En_light e \<and> En_heavy (swap_fragments e) = En_heavy e
       \<and> Eg_light (swap_fragments e) = Eg_light e \<and> Eg_heavy (swap_fragments e) = Eg_heavy e"
    by (simp add: swap_fragments_def)
  show ?thesis
    using base ext frame by (simp add: Let_def m f)
qed

theorem swap_keeps_energy_columns_witness:
  "GEF_FY_for_TALYS 11 example_FY 236 8 = Inr (example_table_plus, 1)
   \<and> (0::nat) < length (rows_more_than_once (map key_of (swapped_table 236 example_FY)))
   \<and> filter (\<lambda>e. key_of (swap_if_Al_larger e) = (36, 96, 56, 140)) (delete_multichance 236 example_FY)
       = [mk_event 36 96 56 140 170 10 12, mk_event 56 140 36 96 172 14 8,
          mk_event 36 96 56 140 174 12 10]
   \<and> example_table_plus ! 0 ! 7
       = np_mean (map Eexc1 [mk_event 36 96 56 140 170 10 12, mk_event 56 140 36 96 172 14 8,
                             mk_event 36 96 56 140 174 12 10])
   \<and> example_table_plus ! 0 ! 7 = 12
   \<and> example_table_plus ! 0 ! 8
       = np_std_ddof1 (map Eexc1 [mk_event 36 96 56 140 170 10 12, mk_event 56 140 36 96 172 14 8,
                                  mk_event 36 96 56 140 174 12 10])
   \<and> example_table_plus ! 0 ! 11
       = np_mean (map En_light [mk_event 36 96 56 140 170 10 12, mk_event 56 140 36 96 172 14 8,
                                mk_event 36 96 56 140 174 12 10])
   \<and> Eexc1 (swap_fragments (mk_event 56 140 36 96 172 14 8)) = 14"
proof -
  have h1: "GEF_FY_for_TALYS 11 example_FY 236 8 = Inr (example_table_plus, 1)"
    by (rule example_GEF_plus)
  have h2: "(0::nat) < length (rows_more_than_once (map key_of (swapped_table 236 example_FY)))"
    by (simp add: example_retained)
  have ind: "filter (\<lambda>e. key_of (swap_if_Al_larger e) = (36, 96, 56, 140))
               (delete_multichance 236 example_FY)
       = [mk_event 36 96 56 140 170 10 12, mk_event 56 140 36 96 172 14 8,
          mk_event 36 96 56 140 174 12 10]"
    by (simp add: delete_multichance_def is_multichance_def swap_if_Al_larger_def
        swap_fragments_def key_of_def example_FY_def mk_event_def)
  have v: "example_table_plus ! 0 ! 7 = 12" by (simp add: example_table_plus_def)
  have e: "Eexc1 (swap_fragments (mk_event 56 140 36 96 172 14 8)) = 14"
    by (simp add: swap_fragments_def mk_event_def)
  show ?thesis
    using h1 h2 v e
      swap_keeps_energy_columns[OF h1 h2, where e = "mk_event 56 140 36 96 172 14 8"]
    by (simp add: Let_def example_retained ind)
qed
section \<open>Properties of the perturbed values\<close>

subsection \<open>Rounding to nine decimals\<close>

lemma rint_floor_cases: "rint x = \<lfloor>x\<rfloor> \<or> rint x = \<lfloor>x\<rfloor> + 1"
  by (simp add: rint_def Let_def)

lemma rint_of_int [simp]: "rint (of_int k) = k"
  by (simp add: rint_def)

lemma rint_zero [simp]: "rint 0 = 0"
  using rint_of_int[of 0] by simp

lemma rint_mono:
  assumes "x \<le> y" shows "rint x \<le> rint y"
proof (cases "\<lfloor>x\<rfloor> = \<lfloor>y\<rfloor>")
  case True
  then show ?thesis using assms by (auto simp: rint_def Let_def)
next
  case False
  with assms have "\<lfloor>x\<rfloor> < \<lfloor>y\<rfloor>" using floor_mono[OF assms] by linarith
  moreover have "rint x \<le> \<lfloor>x\<rfloor> + 1" using rint_floor_cases[of x] by linarith
  moreover have "\<lfloor>y\<rfloor> \<le> rint y" using rint_floor_cases[of y] by linarith
  ultimately show ?thesis by linarith
qed

lemma rint_minus: "rint (- x) = - rint x"
proof (cases "x = of_int \<lfloor>x\<rfloor>")
  case True
  then obtain k where "x = of_int k" by metis
  then show ?thesis by (simp add: rint_of_int[of "-k", simplified])
next
  case False
  then have lt: "of_int \<lfloor>x\<rfloor> < x" using of_int_floor_le[of x] by linarith
  have fl: "\<lfloor>- x\<rfloor> = - \<lfloor>x\<rfloor> - 1"
  proof (rule floor_unique)
    have ub: "x < of_int \<lfloor>x\<rfloor> + 1" by linarith
    have eq: "(of_int (- \<lfloor>x\<rfloor> - 1) :: real) = - of_int \<lfloor>x\<rfloor> - 1" by simp
    show "of_int (- \<lfloor>x\<rfloor> - 1) \<le> - x" unfolding eq using ub by linarith
    show "- x < of_int (- \<lfloor>x\<rfloor> - 1) + 1" unfolding eq using lt by linarith
  qed
  show ?thesis
    unfolding rint_def Let_def fl by (auto simp: algebra_simps)
qed


lemma py_round9_mono: "x \<le> y \<Longrightarrow> py_round9 x \<le> py_round9 y"
  unfolding py_round9_def by (simp add: rint_mono divide_right_mono)

lemma py_round9_minus: "py_round9 (- x) = - py_round9 x"
  unfolding py_round9_def by (simp add: rint_minus)

lemma py_round9_zero [simp]: "py_round9 0 = 0"
  by (simp add: py_round9_def)






lemma py_round9_half: "py_round9 (1 / 2) = 1 / 2"
  by (simp add: py_round9_def rint_def)

text \<open>
  Claim C7. For a special-case parameter the perturbed value is a function of the
  distribution name, of the variates and of the magnitude only: two calls that differ in
  the nominal value alone return the same value, for every distribution name. Under
  \<^verbatim>\<open>uniform\<close> it is the rounding of \<open>u - 0.5\<close>, a number between \<open>-0.5\<close> and \<open>0.5\<close>;
  under \<^verbatim>\<open>normal\<close> the rounding of \<open>0.03 * g\<close>; under \<^verbatim>\<open>max-min\<close> the rounding of the
  magnitude minus 1, which for the two magnitudes of the list is the difference itself.
\<close>

theorem special_case_ignores_nominal:
  assumes sp: "param_name \<in> set special_case_parameters"
  shows "create_perturbed_parameter_value u g param_name rand_num nominal distribution_flag
           = create_perturbed_parameter_value u g param_name rand_num nominal' distribution_flag
       \<and> create_perturbed_parameter_value u g param_name rand_num nominal ''uniform''
           = Float (py_round9 (u - 1 / 2))
       \<and> (0 \<le> u \<and> u \<le> 1 \<longrightarrow>
             - (1 / 2) \<le> py_round9 (u - 1 / 2) \<and> py_round9 (u - 1 / 2) \<le> 1 / 2)
       \<and> create_perturbed_parameter_value u g param_name rand_num nominal ''normal''
           = Float (py_round9 (3 / 100 * g))
       \<and> create_perturbed_parameter_value u g param_name rand_num nominal ''max-min''
           = Float (py_round9 (rand_num - 1))
       \<and> py_round9 (1 - 1) = 1 - 1 \<and> py_round9 (3 / 2 - 1) = 3 / 2 - 1"
proof -
  have rng: "- (1 / 2) \<le> py_round9 (u - 1 / 2) \<and> py_round9 (u - 1 / 2) \<le> 1 / 2"
    if "0 \<le> u" "u \<le> 1"
  proof -
    have "py_round9 (- (1 / 2)) \<le> py_round9 (u - 1 / 2)"
      using that by (intro py_round9_mono) simp
    moreover have "py_round9 (u - 1 / 2) \<le> py_round9 (1 / 2)"
      using that by (intro py_round9_mono) simp
    ultimately show ?thesis by (simp add: py_round9_minus py_round9_half)
  qed
  show ?thesis
    using sp rng by (simp add: create_perturbed_parameter_value_def py_round9_half)
qed

theorem special_case_ignores_nominal_witness:
  "''kappa'' \<in> set special_case_parameters
   \<and> create_perturbed_parameter_value (1 / 4) 1 ''kappa'' (3 / 2) 0 ''max-min''
       = create_perturbed_parameter_value (1 / 4) 1 ''kappa'' (3 / 2) 7 ''max-min''
   \<and> create_perturbed_parameter_value (1 / 4) 1 ''kappa'' (3 / 2) 0 ''uniform''
       = Float (py_round9 (1 / 4 - 1 / 2))
   \<and> create_perturbed_parameter_value (1 / 4) 1 ''kappa'' (3 / 2) 0 ''normal''
       = Float (py_round9 (3 / 100 * 1))
   \<and> create_perturbed_parameter_value (1 / 4) 1 ''kappa'' (3 / 2) 0 ''max-min''
       = Float (py_round9 (3 / 2 - 1))
   \<and> py_round9 (3 / 2 - 1) = 1 / 2"
proof -
  have h: "''kappa'' \<in> set special_case_parameters"
    by (simp add: special_case_parameters_def)
  have r: "py_round9 (3 / 2 - 1) = 1 / 2" by (simp add: py_round9_def rint_def)
  show ?thesis
    using h r special_case_ignores_nominal[OF h, of "1 / 4" 1 "3 / 2" 0 "''max-min''" 7]
    by blast
qed

section \<open>Properties of the campaign\<close>

subsection \<open>Collected results\<close>

lemma collect_Inr: "collect xs = Inr ys \<Longrightarrow> xs = map Inr ys"
  by (induction xs arbitrary: ys) (auto split: sum.splits)

lemma collect_length: "collect xs = Inr ys \<Longrightarrow> length ys = length xs"
  by (drule collect_Inr) simp


lemma collect_map_Inr:
  "collect (map f xs) = Inr ys \<Longrightarrow> list_all2 (\<lambda>x y. f x = Inr y) xs ys"
  by (induction xs arbitrary: ys) (auto split: sum.splits)

lemma Modified_Parameter_init_Inr:
  assumes "Modified_Parameter_init draw p v n flag = Inr m"
  shows "length (list_of_rand_num m) = (if flag = ''max-min'' then 2 else n)"
    and "flag = ''max-min'' \<Longrightarrow> list_of_rand_num m = [1, 3 / 2]"
  using assms
  by (auto simp: Modified_Parameter_init_def Let_def split: if_splits sum.splits)

lemma create_perturbed_FY_Inr:
  "create_perturbed_FY env p v r k t flag = Inr x \<Longrightarrow> rpv_random_value x = r"
  by (auto simp: create_perturbed_FY_def Let_def split: sum.splits)

lemma trials_random_values:
  "collect (map (\<lambda>(k, r). create_perturbed_FY env p v r k t flag) ps) = Inr rs
   \<Longrightarrow> map rpv_random_value rs = map snd ps"
proof (induction ps arbitrary: rs)
  case Nil
  then show ?case by simp
next
  case (Cons a ps)
  then show ?case
    by (cases a) (auto split: sum.splits dest: create_perturbed_FY_Inr)
qed

lemma single_parameter_Inr:
  assumes "perturbed_calculations_single_parameter env key dict n w t flag = Inr m"
  shows "\<exists>rs. length (list_of_rand_num m) = (if flag = ''max-min'' then 2 else n)
            \<and> (flag = ''max-min'' \<longrightarrow> list_of_rand_num m = [1, 3 / 2])
            \<and> map rpv_random_value rs = list_of_rand_num m
            \<and> list_of_Random_Parameter_Value_objects m = completion_order_trials env rs"
proof -
  from assms obtain v m0 rs where
    v: "map_of dict key = Some v"
    and m0: "Modified_Parameter_init (sampler_variate env key) key v n flag = Inr m0"
    and rs: "collect (map (\<lambda>(k, r). create_perturbed_FY env key v r k t flag)
               (enumerate 0 (list_of_rand_num m0))) = Inr rs"
    and m: "m = m0\<lparr>list_of_Random_Parameter_Value_objects := completion_order_trials env rs\<rparr>"
    by (auto simp: perturbed_calculations_single_parameter_def Let_def
        split: option.splits sum.splits if_splits)
  have "map rpv_random_value rs = list_of_rand_num m0"
    using trials_random_values[OF rs] by (simp add: enumerate_eq_zip)
  then show ?thesis
    using Modified_Parameter_init_Inr[OF m0] m by auto
qed

lemma collect_map_mem:
  "collect (map f xs) = Inr ys \<Longrightarrow> y \<in> set ys \<Longrightarrow> \<exists>x \<in> set xs. f x = Inr y"
  by (induction xs arbitrary: ys) (auto split: sum.splits)

lemma Reaction_init_Inr:
  assumes "Reaction_init env Z A E runs n flag t prog = Inr (reac, file)"
  shows "reac_reaction_info reac =
           \<lparr>info_MC_runs = runs, info_Z_target = Z, info_A_compound = A,
            info_E_reaction = E, info_num_of_rand = n\<rparr>"
    and "file = \<lparr>entry_name = pickle_file_name (string_of_int Z) (string_of_int A)
                                (float_repr env E),
                  entry_is_file = True, entry_content = Pickled_Reaction reac\<rparr>"
    and "prog = ''Single_Parameters'' \<Longrightarrow>
           \<exists>groups. collect (map (\<lambda>(key, v).
                  perturbed_calculations_single_parameter env key
                    (reac_dictionary_unpert_param_name_val reac) n
                    \<lfloor>(real (cpu_count env) - 2) / 3\<rfloor> t flag)
                  (reac_dictionary_unpert_param_name_val reac)) = Inr groups
              \<and> list_of_Mod_Param_objects reac = completion_order_groups env groups"
    and "prog = ''TMC'' \<Longrightarrow>
           \<exists>objs. collect (map (\<lambda>k. create_perturbed_TMC_FY env
                  (reac_dictionary_unpert_param_name_val reac) k t flag) [0..<n]) = Inr objs
              \<and> list_of_TMC_Objects reac = completion_order_tmc env objs"
  using assms
  by (auto simp: Reaction_init_def Let_def split: sum.splits if_splits)

text \<open>
  Claim C4, as the code has it. In a campaign that completes, the single-parameter mode
  gives one group per parameter, and every group holds as many trials as were requested
  under \<^verbatim>\<open>uniform\<close> and \<^verbatim>\<open>normal\<close>, but two, the length of the constant list, under
  \<^verbatim>\<open>max-min\<close>; the all-parameters mode gives as many trials as were requested. The order
  in which the pools are read is any permutation.
\<close>

theorem trial_counts:
  fixes env :: "'o environment"
  assumes run: "Reaction_init env Z A E runs n flag t prog = Inr (reac, file)"
    and ot: "\<And>xs. mset (completion_order_trials env xs) = mset xs"
    and og: "\<And>xs. mset (completion_order_groups env xs) = mset xs"
    and oc: "\<And>xs. mset (completion_order_tmc env xs) = mset xs"
  shows "(prog = ''Single_Parameters'' \<longrightarrow>
            length (list_of_Mod_Param_objects reac)
              = length (reac_dictionary_unpert_param_name_val reac)
          \<and> (\<forall>m \<in> set (list_of_Mod_Param_objects reac).
                length (list_of_Random_Parameter_Value_objects m)
                  = (if flag = ''max-min'' then 2 else n)))
       \<and> (prog = ''TMC'' \<longrightarrow> length (list_of_TMC_Objects reac) = n)"
proof -
  let ?dict = "reac_dictionary_unpert_param_name_val reac"
  let ?w = "\<lfloor>(real (cpu_count env) - 2) / 3\<rfloor>"
  have single: "length (list_of_Mod_Param_objects reac) = length ?dict
          \<and> (\<forall>m \<in> set (list_of_Mod_Param_objects reac).
                length (list_of_Random_Parameter_Value_objects m)
                  = (if flag = ''max-min'' then 2 else n))"
    if p: "prog = ''Single_Parameters''"
  proof -
    from Reaction_init_Inr(3)[OF run p] obtain groups where
      c: "collect (map (\<lambda>(key, v).
            perturbed_calculations_single_parameter env key ?dict n ?w t flag) ?dict) = Inr groups"
      and l: "list_of_Mod_Param_objects reac = completion_order_groups env groups"
      by blast
    have len: "length (completion_order_groups env groups) = length groups"
      using og[of groups] by (rule mset_eq_length)
    have st: "set (completion_order_groups env groups) = set groups"
      using og[of groups] by (rule mset_eq_setD)
    have each: "length (list_of_Random_Parameter_Value_objects m)
                  = (if flag = ''max-min'' then 2 else n)" if "m \<in> set groups" for m
    proof -
      from collect_map_mem[OF c that] obtain key where
        "perturbed_calculations_single_parameter env key ?dict n ?w t flag = Inr m"
        by (auto split: prod.splits)
      from single_parameter_Inr[OF this] obtain rs where
        a: "length (list_of_rand_num m) = (if flag = ''max-min'' then 2 else n)"
        and b: "map rpv_random_value rs = list_of_rand_num m"
        and d: "list_of_Random_Parameter_Value_objects m = completion_order_trials env rs"
        by blast
      have "length (completion_order_trials env rs) = length rs"
        using ot[of rs] by (rule mset_eq_length)
      moreover have "length rs = length (list_of_rand_num m)"
        using b by (metis length_map)
      ultimately show ?thesis using a d by simp
    qed
    show ?thesis
      using collect_length[OF c] len st each l by simp
  qed
  have tmc: "length (list_of_TMC_Objects reac) = n" if p: "prog = ''TMC''"
  proof -
    from Reaction_init_Inr(4)[OF run p] obtain objs where
      c: "collect (map (\<lambda>k. create_perturbed_TMC_FY env ?dict k t flag) [0..<n]) = Inr objs"
      and l: "list_of_TMC_Objects reac = completion_order_tmc env objs"
      by blast
    have "length (completion_order_tmc env objs) = length objs"
      using oc[of objs] by (rule mset_eq_length)
    then show ?thesis using collect_length[OF c] l by simp
  qed
  show ?thesis using single tmc by simp
qed

lemmas campaign_defs = Reaction_init_def Let_def example_env_def example_variate_def
  example_simulate_def example_float_repr_def perturbed_calculations_single_parameter_def
  Modified_Parameter_init_def create_perturbed_FY_def create_perturbed_parameter_value_def
  special_case_parameters_def py_round9_def rint_def string_of_int_def string_of_nat.simps
  pickle_file_name_def create_perturbed_TMC_FY_def TMC_Mod_Param_object_init_def
  enumerate_eq_zip upt_rec

lemma example_single_uniform_runs: "\<not> isl example_single_uniform"
  by (simp add: example_single_uniform_def campaign_defs)

lemma example_single_max_min_runs: "\<not> isl example_single_max_min"
  by (simp add: example_single_max_min_def campaign_defs)

lemma example_tmc_no_trial_runs: "\<not> isl example_tmc_no_trial"
  by (simp add: example_tmc_no_trial_def campaign_defs)


theorem trial_counts_witness:
  "\<not> isl example_single_uniform
   \<and> length (list_of_Mod_Param_objects (fst (projr example_single_uniform)))
       = length (reac_dictionary_unpert_param_name_val (fst (projr example_single_uniform)))
   \<and> list_all (\<lambda>m. length (list_of_Random_Parameter_Value_objects m) = 3)
       (list_of_Mod_Param_objects (fst (projr example_single_uniform)))
   \<and> reac_dictionary_unpert_param_name_val (fst (projr example_single_uniform))
       = [(''POLARfac'', 1), (''kappa'', 0)]"
proof -
  have r: "\<not> isl example_single_uniform" by (rule example_single_uniform_runs)
  then have h0: "example_single_uniform
                = Inr (fst (projr example_single_uniform), snd (projr example_single_uniform))"
    by simp
  note h = h0[unfolded example_single_uniform_def]
  have o1: "mset (completion_order_trials example_env xs) = mset xs" for xs
    by (simp add: example_env_def)
  have o2: "mset (completion_order_groups example_env xs) = mset xs" for xs
    by (simp add: example_env_def)
  have o3: "mset (completion_order_tmc example_env xs) = mset xs" for xs
    by (simp add: example_env_def)
  have d: "reac_dictionary_unpert_param_name_val (fst (projr example_single_uniform))
       = [(''POLARfac'', 1), (''kappa'', 0)]"
    by (simp add: example_single_uniform_def campaign_defs)
  show ?thesis
    using r d trial_counts[OF h o1 o2 o3] unfolding example_single_uniform_def
    by (simp add: list_all_iff)
qed

text \<open>
  The claim as stated fails under \<^verbatim>\<open>max-min\<close>: five trials per parameter are requested,
  the campaign completes, and each of the two groups holds two trials.
\<close>

theorem trial_counts_max_min_counterexample:
  "\<not> isl example_single_max_min
   \<and> info_num_of_rand (reac_reaction_info (fst (projr example_single_max_min))) = 5
   \<and> map length (map list_of_Random_Parameter_Value_objects
                   (list_of_Mod_Param_objects (fst (projr example_single_max_min)))) = [2, 2]"
  by (simp add: example_single_max_min_def campaign_defs)
subsection \<open>The list of scale factors\<close>






subsection \<open>Distribution names in the all-parameters mode\<close>

lemma read_parameters_Nil: "read_parameters ls [] d = Inr d"
  by simp







subsection \<open>Reloading a persisted campaign\<close>





end
